theory Spec2Isabelle
  imports Complex_Main "HOL-Library.AList"
begin

section \<open>Data model of the expense tracker (backend/server.py)\<close>

text \<open>
  Strings are byte strings (UTF-8); the emoji icons of the source are written as their
  bytes.  Amounts are Python floats in the source; they are modelled by exact rationals,
  so every statement about sums below is a statement about the exact arithmetic the floats
  approximate (rounding of float addition is outside the model).
\<close>

datatype error =
    HTTPException nat string  \<comment> \<open>status code and detail\<close>
  | ValueError                \<comment> \<open>\<open>datetime(...)\<close> out of range\<close>
  | AttributeError            \<comment> \<open>a method call on \<open>None\<close>\<close>
  | TypeError                 \<comment> \<open>\<open>Model(**None)\<close>\<close>
  | IndexError

datatype TransactionType = EXPENSE | INCOME

text \<open>A datetime: calendar fields and the time of day in milliseconds (the precision
  of the document store).\<close>

record datetime =
  dt_year :: int
  dt_month :: int
  dt_day :: int
  dt_ms :: nat

definition is_leap :: "int \<Rightarrow> bool" where
  "is_leap y = (y mod 4 = 0 \<and> (y mod 100 \<noteq> 0 \<or> y mod 400 = 0))"

definition days_in_month :: "int \<Rightarrow> int \<Rightarrow> int" where
  "days_in_month y m =
     (if m = 2 then (if is_leap y then 29 else 28)
      else if m = 4 \<or> m = 6 \<or> m = 9 \<or> m = 11 then 30 else 31)"

text \<open>The constructor \<open>datetime(year, month, day)\<close>: Python raises ValueError unless
  \<open>1 \<le> year \<le> 9999\<close>, \<open>1 \<le> month \<le> 12\<close> and the day exists in that month.\<close>

definition datetime_new :: "int \<Rightarrow> int \<Rightarrow> int \<Rightarrow> error + datetime" where
  "datetime_new y m d =
     (if 1 \<le> y \<and> y \<le> 9999 \<and> 1 \<le> m \<and> m \<le> 12 \<and> 1 \<le> d \<and> d \<le> days_in_month y m
      then Inr \<lparr>dt_year = y, dt_month = m, dt_day = d, dt_ms = 0\<rparr>
      else Inl ValueError)"

text \<open>Chronological order of datetimes (the store's \<open>$lt\<close> and \<open>$gte\<close>).\<close>

definition dt_less :: "datetime \<Rightarrow> datetime \<Rightarrow> bool" where
  "dt_less a b =
     (dt_year a < dt_year b \<or> (dt_year a = dt_year b \<and>
       (dt_month a < dt_month b \<or> (dt_month a = dt_month b \<and>
         (dt_day a < dt_day b \<or> (dt_day a = dt_day b \<and> dt_ms a < dt_ms b))))))"

definition dt_gte :: "datetime \<Rightarrow> datetime \<Rightarrow> bool" where
  "dt_gte a b = (dt_less b a \<or> a = b)"


text \<open>A field of a stored document that a reader accesses with \<open>.get\<close>: the key may be
  missing, hold \<open>None\<close>, or hold a value.\<close>

datatype 'a field = Absent | Null | Value 'a

text \<open>
  Stored documents.  \<open>t_category_name = None\<close> stands for a document without the key
  \<open>category_name\<close> (the model class \<open>Transaction\<close> rejects \<open>None\<close> for it and
  defaults it to the empty string, so a document written by \<open>create_transaction\<close> holds
  \<open>Some s\<close>).  \<open>note\<close> is \<open>Optional[str]\<close>, so it can be stored as \<open>None\<close>.
\<close>

record Category =
  c_id :: string
  c_name :: string
  c_color :: string
  c_icon :: string
  c_created_at :: datetime

record Transaction =
  t_id :: string
  t_amount :: rat
  t_category_id :: string
  t_category_name :: "string option"
  t_type :: TransactionType
  t_date :: datetime
  t_note :: "string field"
  t_is_recurring :: bool
  t_created_at :: datetime

record Reminder =
  r_id :: string
  r_title :: string
  r_message :: "string option"
  r_date :: datetime
  r_time :: string
  r_is_recurring :: bool
  r_is_enabled :: bool
  r_created_at :: datetime

section \<open>Analytics: the monthly report\<close>

text \<open>Lines 215-219 (and again 260-264): the window of a month.\<close>

definition month_window :: "int \<Rightarrow> int \<Rightarrow> error + (datetime \<times> datetime)" where
  "month_window year month =
     (case datetime_new year month 1 of
        Inl e \<Rightarrow> Inl e
      | Inr start_date \<Rightarrow>
          (case (if month = 12 then datetime_new (year + 1) 1 1
                 else datetime_new year (month + 1) 1) of
             Inl e \<Rightarrow> Inl e
           | Inr end_date \<Rightarrow> Inr (start_date, end_date)))"

text \<open>\<open>db.transactions.find({"date": {"$gte": start, "$lt": end}}).to_list(n)\<close>: the
  collection is a list in the store's order; \<open>to_list(n)\<close> keeps at most \<open>n\<close> documents.\<close>

definition find_by_date :: "datetime \<Rightarrow> datetime \<Rightarrow> nat \<Rightarrow> Transaction list \<Rightarrow> Transaction list" where
  "find_by_date start_date end_date n coll =
     take n (filter (\<lambda>t. dt_gte (t_date t) start_date \<and> dt_less (t_date t) end_date) coll)"


text \<open>\<open>sum(t["amount"] for t in transactions if t["type"] == ty)\<close>\<close>

definition total_of :: "TransactionType \<Rightarrow> Transaction list \<Rightarrow> rat" where
  "total_of ty transactions = sum_list (map t_amount (filter (\<lambda>t. t_type t = ty) transactions))"


text \<open>\<open>t.get("category_name", "Other")\<close>\<close>

definition get_category_name :: "Transaction \<Rightarrow> string" where
  "get_category_name t = (case t_category_name t of None \<Rightarrow> ''Other'' | Some s \<Rightarrow> s)"






section \<open>Analytics: the last six months\<close>

text \<open>Lines 254-258: \<open>while month <= 0: month += 12; year -= 1\<close>.\<close>

function roll_back :: "int \<Rightarrow> int \<Rightarrow> int \<times> int" where
  "roll_back month year =
     (if month \<le> 0 then roll_back (month + 12) (year - 1) else (month, year))"
  by pat_completeness auto
termination
  by (relation "measure (\<lambda>(month, year). nat (1 - month))") auto

declare roll_back.simps [simp del]

definition month_names :: "string list" where
  "month_names = [''Jan'', ''Feb'', ''Mar'', ''Apr'', ''May'', ''Jun'',
                  ''Jul'', ''Aug'', ''Sep'', ''Oct'', ''Nov'', ''Dec'']"

text \<open>\<open>xs[i]\<close>: a negative index counts from the end, an index out of range raises.\<close>

definition list_index :: "'a list \<Rightarrow> int \<Rightarrow> error + 'a" where
  "list_index xs i =
     (let n = int (length xs); j = (if i < 0 then n + i else i)
      in if 0 \<le> j \<and> j < n then Inr (xs ! nat j) else Inl IndexError)"

record month_data =
  md_month :: string
  md_year :: int
  md_income :: rat
  md_expense :: rat

text \<open>The body of the loop of \<open>get_last_six_months\<close> for one \<open>i\<close> (lines 254-279).\<close>

definition six_months_step :: "datetime \<Rightarrow> Transaction list \<Rightarrow> int \<Rightarrow> error + month_data" where
  "six_months_step now coll i =
     (case roll_back (dt_month now - i) (dt_year now) of
        (month, year) \<Rightarrow>
          (case month_window year month of
             Inl e \<Rightarrow> Inl e
           | Inr (start_date, end_date) \<Rightarrow>
               (let transactions = find_by_date start_date end_date 1000 coll;
                    total_income = total_of INCOME transactions;
                    total_expense = total_of EXPENSE transactions
                in case list_index month_names (month - 1) of
                     Inl e \<Rightarrow> Inl e
                   | Inr name \<Rightarrow>
                       Inr \<lparr>md_month = name, md_year = year,
                            md_income = total_income, md_expense = total_expense\<rparr>)))"

text \<open>A \<open>for\<close> loop that appends one result per element and stops at the first error.\<close>

fun for_each :: "('a \<Rightarrow> error + 'b) \<Rightarrow> 'a list \<Rightarrow> error + 'b list" where
  "for_each f [] = Inr []"
| "for_each f (x # xs) =
     (case f x of
        Inl e \<Rightarrow> Inl e
      | Inr y \<Rightarrow> (case for_each f xs of Inl e \<Rightarrow> Inl e | Inr ys \<Rightarrow> Inr (y # ys)))"

text \<open>\<open>now\<close> is the value of \<open>datetime.utcnow()\<close>; \<open>range(5, -1, -1)\<close> is 5, 4, 3, 2, 1, 0.\<close>

definition get_last_six_months :: "datetime \<Rightarrow> Transaction list \<Rightarrow> error + month_data list" where
  "get_last_six_months now coll = for_each (six_months_step now coll) [5, 4, 3, 2, 1, 0]"

section \<open>The category catalog\<close>

text \<open>\<open>DEFAULT_CATEGORIES\<close> (lines 107-116): name, color, icon.\<close>

definition DEFAULT_CATEGORIES :: "(string \<times> string \<times> string) list" where
  "DEFAULT_CATEGORIES =
     [(''Food'', ''#EF4444'', [CHR 0xF0, CHR 0x9F, CHR 0x8D, CHR 0x94]),
      (''Rent'', ''#8B5CF6'', [CHR 0xF0, CHR 0x9F, CHR 0x8F, CHR 0xA0]),
      (''Transport'', ''#3B82F6'', [CHR 0xF0, CHR 0x9F, CHR 0x9A, CHR 0x97]),
      (''Shopping'', ''#EC4899'',
         [CHR 0xF0, CHR 0x9F, CHR 0x9B, CHR 0x8D, CHR 0xEF, CHR 0xB8, CHR 0x8F]),
      (''Bills'', ''#F59E0B'', [CHR 0xF0, CHR 0x9F, CHR 0x93, CHR 0x84]),
      (''Entertainment'', ''#10B981'', [CHR 0xF0, CHR 0x9F, CHR 0x8E, CHR 0xAC]),
      (''Salary'', ''#22C55E'', [CHR 0xF0, CHR 0x9F, CHR 0x92, CHR 0xB5]),
      (''Investments'', ''#6366F1'', [CHR 0xF0, CHR 0x9F, CHR 0x93, CHR 0x88])]"

text \<open>\<open>Category(**cat)\<close>: the identifier is a fresh \<open>uuid4\<close> and \<open>created_at\<close> is the
  clock; both are supplied from outside.\<close>

definition new_Category :: "string \<times> string \<times> string \<Rightarrow> string \<times> datetime \<Rightarrow> Category" where
  "new_Category cat fresh =
     (case cat of (name, color, icon) \<Rightarrow>
        \<lparr>c_id = fst fresh, c_name = name, c_color = color, c_icon = icon,
         c_created_at = snd fresh\<rparr>)"

text \<open>Lines 129-131: one \<open>insert_one\<close> per default; \<open>gen k\<close> is the identifier and time
  of the \<open>k\<close>-th category built.\<close>

fun seed_loop ::
  "(nat \<Rightarrow> string \<times> datetime) \<Rightarrow> nat \<Rightarrow> (string \<times> string \<times> string) list \<Rightarrow> Category list
     \<Rightarrow> Category list" where
  "seed_loop gen k [] coll = coll"
| "seed_loop gen k (cat # cats) coll = seed_loop gen (Suc k) cats (coll @ [new_Category cat (gen k)])"

text \<open>\<open>get_categories\<close> returns the response and the collection after the call.\<close>

definition get_categories ::
  "(nat \<Rightarrow> string \<times> datetime) \<Rightarrow> Category list \<Rightarrow> Category list \<times> Category list" where
  "get_categories gen coll =
     (let categories = take 100 coll
      in if categories = []
         then (let coll' = seed_loop gen 0 DEFAULT_CATEGORIES coll in (take 100 coll', coll'))
         else (categories, coll))"

section \<open>Partial updates\<close>

record CategoryUpdate =
  cu_name :: "string option"
  cu_color :: "string option"
  cu_icon :: "string option"

record TransactionUpdate =
  tu_amount :: "rat option"
  tu_category_id :: "string option"
  tu_category_name :: "string option"
  tu_type :: "TransactionType option"
  tu_date :: "datetime option"
  tu_note :: "string option"
  tu_is_recurring :: "bool option"

record ReminderUpdate =
  ru_title :: "string option"
  ru_message :: "string option"
  ru_date :: "datetime option"
  ru_time :: "string option"
  ru_is_recurring :: "bool option"
  ru_is_enabled :: "bool option"

text \<open>\<open>update_data = {k: v for k, v in patch.dict().items() if v is not None}\<close> is empty
  when every field of the patch is \<open>None\<close>.\<close>

definition category_update_empty :: "CategoryUpdate \<Rightarrow> bool" where
  "category_update_empty u = (cu_name u = None \<and> cu_color u = None \<and> cu_icon u = None)"

definition transaction_update_empty :: "TransactionUpdate \<Rightarrow> bool" where
  "transaction_update_empty u =
     (tu_amount u = None \<and> tu_category_id u = None \<and> tu_category_name u = None \<and>
      tu_type u = None \<and> tu_date u = None \<and> tu_note u = None \<and> tu_is_recurring u = None)"

definition reminder_update_empty :: "ReminderUpdate \<Rightarrow> bool" where
  "reminder_update_empty u =
     (ru_title u = None \<and> ru_message u = None \<and> ru_date u = None \<and> ru_time u = None \<and>
      ru_is_recurring u = None \<and> ru_is_enabled u = None)"

text \<open>\<open>{"$set": update_data}\<close> on one document: each key of \<open>update_data\<close> is overwritten.\<close>

definition set_field :: "'a option \<Rightarrow> 'a \<Rightarrow> 'a" where
  "set_field v old = (case v of None \<Rightarrow> old | Some x \<Rightarrow> x)"

definition set_category :: "CategoryUpdate \<Rightarrow> Category \<Rightarrow> Category" where
  "set_category u c =
     c\<lparr>c_name := set_field (cu_name u) (c_name c),
       c_color := set_field (cu_color u) (c_color c),
       c_icon := set_field (cu_icon u) (c_icon c)\<rparr>"

definition set_transaction :: "TransactionUpdate \<Rightarrow> Transaction \<Rightarrow> Transaction" where
  "set_transaction u t =
     t\<lparr>t_amount := set_field (tu_amount u) (t_amount t),
       t_category_id := set_field (tu_category_id u) (t_category_id t),
       t_category_name :=
         (case tu_category_name u of None \<Rightarrow> t_category_name t | Some s \<Rightarrow> Some s),
       t_type := set_field (tu_type u) (t_type t),
       t_date := set_field (tu_date u) (t_date t),
       t_note := (case tu_note u of None \<Rightarrow> t_note t | Some s \<Rightarrow> Value s),
       t_is_recurring := set_field (tu_is_recurring u) (t_is_recurring t)\<rparr>"

definition set_reminder :: "ReminderUpdate \<Rightarrow> Reminder \<Rightarrow> Reminder" where
  "set_reminder u r =
     r\<lparr>r_title := set_field (ru_title u) (r_title r),
       r_message := (case ru_message u of None \<Rightarrow> r_message r | Some s \<Rightarrow> Some s),
       r_date := set_field (ru_date u) (r_date r),
       r_time := set_field (ru_time u) (r_time r),
       r_is_recurring := set_field (ru_is_recurring u) (r_is_recurring r),
       r_is_enabled := set_field (ru_is_enabled u) (r_is_enabled r)\<rparr>"

text \<open>
  The store's \<open>update_one(filter, update)\<close>: the first document that matches the filter is
  rewritten.  The result is the collection, \<open>matched_count\<close> and \<open>modified_count\<close>; a
  matched document that the update leaves as it was counts as matched and not as modified.
\<close>

fun update_one :: "('a \<Rightarrow> bool) \<Rightarrow> ('a \<Rightarrow> 'a) \<Rightarrow> 'a list \<Rightarrow> 'a list \<times> nat \<times> nat" where
  "update_one p f [] = ([], 0, 0)"
| "update_one p f (x # xs) =
     (if p x then (f x # xs, 1, if f x = x then 0 else 1)
      else (case update_one p f xs of (ys, matched, modified) \<Rightarrow> (x # ys, matched, modified)))"

definition modified_count :: "'a list \<times> nat \<times> nat \<Rightarrow> nat" where
  "modified_count result = snd (snd result)"

definition matched_count :: "'a list \<times> nat \<times> nat \<Rightarrow> nat" where
  "matched_count result = fst (snd result)"

text \<open>\<open>find_one(filter)\<close> is \<open>List.find\<close>; \<open>Model(**None)\<close> raises TypeError.\<close>

definition update_category ::
  "string \<Rightarrow> CategoryUpdate \<Rightarrow> Category list \<Rightarrow> (error + Category) \<times> Category list" where
  "update_category category_id category coll =
     (if category_update_empty category
      then (Inl (HTTPException 400 ''No data to update''), coll)
      else (let result = update_one (\<lambda>c. c_id c = category_id) (set_category category) coll;
                coll' = fst result
            in if modified_count result = 0
               then (Inl (HTTPException 404 ''Category not found''), coll')
               else (case find (\<lambda>c. c_id c = category_id) coll' of
                       None \<Rightarrow> (Inl TypeError, coll')
                     | Some updated \<Rightarrow> (Inr updated, coll'))))"

definition update_transaction ::
  "string \<Rightarrow> TransactionUpdate \<Rightarrow> Transaction list \<Rightarrow> (error + Transaction) \<times> Transaction list" where
  "update_transaction transaction_id transaction coll =
     (if transaction_update_empty transaction
      then (Inl (HTTPException 400 ''No data to update''), coll)
      else (let result = update_one (\<lambda>t. t_id t = transaction_id) (set_transaction transaction) coll;
                coll' = fst result
            in if modified_count result = 0
               then (Inl (HTTPException 404 ''Transaction not found''), coll')
               else (case find (\<lambda>t. t_id t = transaction_id) coll' of
                       None \<Rightarrow> (Inl TypeError, coll')
                     | Some updated \<Rightarrow> (Inr updated, coll'))))"

definition update_reminder ::
  "string \<Rightarrow> ReminderUpdate \<Rightarrow> Reminder list \<Rightarrow> (error + Reminder) \<times> Reminder list" where
  "update_reminder reminder_id reminder coll =
     (if reminder_update_empty reminder
      then (Inl (HTTPException 400 ''No data to update''), coll)
      else (let result = update_one (\<lambda>r. r_id r = reminder_id) (set_reminder reminder) coll;
                coll' = fst result
            in if modified_count result = 0
               then (Inl (HTTPException 404 ''Reminder not found''), coll')
               else (case find (\<lambda>r. r_id r = reminder_id) coll' of
                       None \<Rightarrow> (Inl TypeError, coll')
                     | Some updated \<Rightarrow> (Inr updated, coll'))))"

section \<open>CSV export\<close>

text \<open>\<open>s.replace(old, new)\<close> for a one-character \<open>old\<close>.\<close>

definition str_replace :: "char \<Rightarrow> string \<Rightarrow> string \<Rightarrow> string" where
  "str_replace old new s = concat (map (\<lambda>c. if c = old then new else [c]) s)"

definition type_str :: "TransactionType \<Rightarrow> string" where
  "type_str ty = (case ty of EXPENSE \<Rightarrow> ''expense'' | INCOME \<Rightarrow> ''income'')"

text \<open>\<open>t.get("note", "")\<close>\<close>

definition get_note :: "Transaction \<Rightarrow> string field" where
  "get_note t = (case t_note t of Absent \<Rightarrow> Value [] | Null \<Rightarrow> Null | Value s \<Rightarrow> Value s)"

text \<open>
  Lines 331-333, one row.  \<open>strftime\<close> renders the date (\<open>"%Y-%m-%d"\<close>) and \<open>fmt_amount\<close>
  is Python's rendering of a float; both are parameters.  \<open>CHR 0x22\<close> is the double quote.
  A stored \<open>None\<close> note has no \<open>replace\<close> method.
\<close>

definition csv_row :: "(datetime \<Rightarrow> string) \<Rightarrow> (rat \<Rightarrow> string) \<Rightarrow> Transaction \<Rightarrow> error + string" where
  "csv_row strftime fmt_amount t =
     (let date_str = strftime (t_date t)
      in case get_note t of
           Value s \<Rightarrow>
             (let note = str_replace CHR '','' '' '' (str_replace (CHR 0x22) [CHR 0x22, CHR 0x22] s)
              in Inr (date_str @ '','' @ type_str (t_type t) @ '','' @ get_category_name t @ '','' @
                      fmt_amount (t_amount t) @ '','' @ [CHR 0x22] @ note @ [CHR 0x22]))
         | _ \<Rightarrow> Inl AttributeError)"

text \<open>Lines 329-333: the header and one row per fetched transaction.\<close>

definition csv_rows ::
  "(datetime \<Rightarrow> string) \<Rightarrow> (rat \<Rightarrow> string) \<Rightarrow> Transaction list \<Rightarrow> error + string list" where
  "csv_rows strftime fmt_amount transactions =
     (case for_each (csv_row strftime fmt_amount) transactions of
        Inl e \<Rightarrow> Inl e
      | Inr rows \<Rightarrow> Inr (''Date,Type,Category,Amount,Notes'' # rows))"

section \<open>Vocabulary of the statements\<close>

text \<open>The first instant of a day.\<close>

definition midnight :: "int \<Rightarrow> int \<Rightarrow> int \<Rightarrow> datetime" where
  "midnight y m d = \<lparr>dt_year = y, dt_month = m, dt_day = d, dt_ms = 0\<rparr>"

text \<open>The first instant of the month after month \<open>m\<close> of year \<open>y\<close>.\<close>

definition next_month_start :: "int \<Rightarrow> int \<Rightarrow> datetime" where
  "next_month_start y m = (if m = 12 then midnight (y + 1) 1 1 else midnight y (m + 1) 1)"

text \<open>A transaction document for the concrete examples: identifier, amount, stored
  category name, type and date; the other fields are fixed.\<close>

definition example_tx ::
  "string \<Rightarrow> rat \<Rightarrow> string option \<Rightarrow> TransactionType \<Rightarrow> datetime \<Rightarrow> Transaction" where
  "example_tx i a cn ty d =
     \<lparr>t_id = i, t_amount = a, t_category_id = ''c1'', t_category_name = cn, t_type = ty,
      t_date = d, t_note = Value [], t_is_recurring = False, t_created_at = d\<rparr>"

text \<open>Further documents and parameters for the concrete examples: a category, a
  reminder, a supply of identifiers and creation times, and the renderings of the example
  date and amount.\<close>

definition example_category :: "string \<Rightarrow> string \<Rightarrow> Category" where
  "example_category i n =
     \<lparr>c_id = i, c_name = n, c_color = ''#EF4444'', c_icon = ''*'',
      c_created_at = midnight 2024 1 1\<rparr>"

definition example_reminder :: "string \<Rightarrow> string \<Rightarrow> Reminder" where
  "example_reminder i n =
     \<lparr>r_id = i, r_title = n, r_message = Some [], r_date = midnight 2024 1 1,
      r_time = ''09:00'', r_is_recurring = False, r_is_enabled = True,
      r_created_at = midnight 2024 1 1\<rparr>"

definition example_gen :: "nat \<Rightarrow> string \<times> datetime" where
  "example_gen k = (replicate (Suc k) CHR ''u'', midnight 2024 1 1)"



section \<open>Properties of the monthly report\<close>














section \<open>Properties of the month window\<close>

lemma month_window_ok:
  assumes "1 \<le> y" "y \<le> 9999" "1 \<le> m" "m \<le> 12" "\<not> (y = 9999 \<and> m = 12)"
  shows "month_window y m = Inr (midnight y m 1, next_month_start y m)"
  using assms
  by (auto simp: month_window_def datetime_new_def days_in_month_def midnight_def
                 next_month_start_def)





section \<open>Properties of the six-month series\<close>

lemma shift_month:
  "(11 + month) mod 12 = (month - 1) mod (12::int)"
  "(11 + month) div 12 = (month - 1) div (12::int) + 1"
proof -
  have e: "11 + month = (month - 1) + 12" by simp
  show "(11 + month) mod 12 = (month - 1) mod (12::int)"
    by (subst e) (rule mod_add_self2)
  show "(11 + month) div 12 = (month - 1) div (12::int) + 1"
    by (subst e, subst div_add_self2) simp_all
qed

lemma roll_back_eq:
  "month \<le> 12 \<Longrightarrow> roll_back month year = ((month - 1) mod 12 + 1, year + (month - 1) div 12)"
proof (induction month year rule: roll_back.induct)
  case (1 month year)
  show ?case
  proof (cases "month \<le> 0")
    case True
    have "roll_back (month + 12) (year - 1)
        = ((month + 12 - 1) mod 12 + 1, year - 1 + (month + 12 - 1) div 12)"
      using "1.IH" True by simp
    then have "roll_back (month + 12) (year - 1) = ((month - 1) mod 12 + 1, year + (month - 1) div 12)"
      by (simp add: shift_month)
    then show ?thesis using True by (simp add: roll_back.simps [of month year])
  next
    case False
    then have "0 \<le> month - 1" "month - 1 < 12" using "1.prems" by simp_all
    then have "(month - 1) mod 12 = month - 1" "(month - 1) div 12 = 0" by simp_all
    with False show ?thesis by (simp add: roll_back.simps [of month year])
  qed
qed

lemma list_index_month_names:
  "0 \<le> j \<Longrightarrow> j < 12 \<Longrightarrow> list_index month_names j = Inr (month_names ! nat j)"
  by (simp add: list_index_def month_names_def Let_def)



lemma six_months_step_ok:
  assumes "1 \<le> dt_month now" "dt_month now \<le> 12" "2 \<le> dt_year now" "dt_year now \<le> 9998"
    and "0 \<le> i" "i \<le> 5"
  shows "six_months_step now coll i =
     Inr \<lparr>md_month = month_names ! nat ((dt_year now * 12 + (dt_month now - 1) - i) mod 12),
          md_year = (dt_year now * 12 + (dt_month now - 1) - i) div 12,
          md_income = total_of INCOME
            (find_by_date (midnight ((dt_year now * 12 + (dt_month now - 1) - i) div 12)
                                    ((dt_year now * 12 + (dt_month now - 1) - i) mod 12 + 1) 1)
                          (next_month_start ((dt_year now * 12 + (dt_month now - 1) - i) div 12)
                                    ((dt_year now * 12 + (dt_month now - 1) - i) mod 12 + 1)) 1000 coll),
          md_expense = total_of EXPENSE
            (find_by_date (midnight ((dt_year now * 12 + (dt_month now - 1) - i) div 12)
                                    ((dt_year now * 12 + (dt_month now - 1) - i) mod 12 + 1) 1)
                          (next_month_start ((dt_year now * 12 + (dt_month now - 1) - i) div 12)
                                    ((dt_year now * 12 + (dt_month now - 1) - i) mod 12 + 1)) 1000 coll)\<rparr>"
proof -
  define n where "n = dt_year now * 12 + (dt_month now - 1) - i"
  define mo where "mo = dt_month now - i"
  have n: "n = (mo - 1) + dt_year now * 12"
    by (simp add: n_def mo_def)
  have d: "n div 12 = dt_year now + (mo - 1) div 12" and m: "n mod 12 = (mo - 1) mod 12"
    unfolding n by simp_all
  have rb: "roll_back mo (dt_year now) = (n mod 12 + 1, n div 12)"
    using assms(2,5) by (simp add: roll_back_eq mo_def d m)
  have "- 12 \<le> mo - 1" "mo - 1 < 12"
    using assms(1,2,5,6) by (simp_all add: mo_def)
  then have "(- 12) div 12 \<le> (mo - 1) div 12" "(mo - 1) div 12 \<le> 11 div (12::int)"
    by (intro zdiv_mono1; simp)+
  then have "- 1 \<le> (mo - 1) div 12" "(mo - 1) div 12 \<le> 0"
    by simp_all
  then have yr: "1 \<le> n div 12" "n div 12 \<le> 9998"
    using assms(3,4) by (simp_all add: d)
  have mr: "0 \<le> n mod 12" "n mod 12 < 12" by simp_all
  have w: "month_window (n div 12) (n mod 12 + 1)
             = Inr (midnight (n div 12) (n mod 12 + 1) 1, next_month_start (n div 12) (n mod 12 + 1))"
    using yr mr by (intro month_window_ok) auto
  show ?thesis
    unfolding n_def [symmetric]
    using rb w mr by (simp add: six_months_step_def mo_def list_index_month_names Let_def)
qed

lemma example_in_window:
  "(dt_gte (t_date (example_tx i a cn ty (midnight y' m' d'))) (midnight y m 1) \<and>
    dt_less (t_date (example_tx i a cn ty (midnight y' m' d'))) (next_month_start y m))
   = ((y < y' \<or> y = y' \<and> (m < m' \<or> m = m' \<and> 1 \<le> d')) \<and>
      (if m = 12 then y' < y + 1 \<or> y' = y + 1 \<and> (m' < 1 \<or> m' = 1 \<and> d' < 1)
       else y' < y \<or> y' = y \<and> (m' < m + 1 \<or> m' = m + 1 \<and> d' < 1)))"
  by (auto simp: example_tx_def midnight_def next_month_start_def dt_gte_def dt_less_def)

text \<open>
  C5 (as the code has it).  With the clock in a month 1..12 of a year 2..9998, the call returns
  six records, oldest first: the record at offset \<open>i = 5, 4, 3, 2, 1, 0\<close> is the calendar
  month \<open>i\<close> months before the current one (month number \<open>year * 12 + month - 1 - i\<close>, so
  the year goes back when the subtraction leaves January), labelled with the three-letter
  abbreviation of the month and the year, and it carries the income and expense totals of the
  first 1000 documents of the collection dated in that month's window.
\<close>

theorem C5_last_six_months:
  assumes "1 \<le> dt_month now" "dt_month now \<le> 12" "2 \<le> dt_year now" "dt_year now \<le> 9998"
  shows "get_last_six_months now coll =
     Inr (map (\<lambda>i.
       \<lparr>md_month = month_names ! nat ((dt_year now * 12 + (dt_month now - 1) - i) mod 12),
        md_year = (dt_year now * 12 + (dt_month now - 1) - i) div 12,
        md_income = total_of INCOME
            (find_by_date (midnight ((dt_year now * 12 + (dt_month now - 1) - i) div 12)
                                    ((dt_year now * 12 + (dt_month now - 1) - i) mod 12 + 1) 1)
                          (next_month_start ((dt_year now * 12 + (dt_month now - 1) - i) div 12)
                                    ((dt_year now * 12 + (dt_month now - 1) - i) mod 12 + 1)) 1000 coll),
        md_expense = total_of EXPENSE
            (find_by_date (midnight ((dt_year now * 12 + (dt_month now - 1) - i) div 12)
                                    ((dt_year now * 12 + (dt_month now - 1) - i) mod 12 + 1) 1)
                          (next_month_start ((dt_year now * 12 + (dt_month now - 1) - i) div 12)
                                    ((dt_year now * 12 + (dt_month now - 1) - i) mod 12 + 1)) 1000 coll)\<rparr>)
       [5, 4, 3, 2, 1, 0])"
  unfolding get_last_six_months_def
  by (simp add: six_months_step_ok [OF assms])





text \<open>The clock in March 2024: October 2023 to March 2024, in that order.\<close>

theorem C5_witness:
  "get_last_six_months \<lparr>dt_year = 2024, dt_month = 3, dt_day = 15, dt_ms = 43200000\<rparr>
     [example_tx ''a'' 100 (Some ''Salary'') INCOME (midnight 2024 1 31),
      example_tx ''b'' 40 (Some ''Food'') EXPENSE (midnight 2024 3 1),
      example_tx ''c'' 7 (Some ''Food'') EXPENSE (midnight 2023 9 30)]
   = Inr [\<lparr>md_month = ''Oct'', md_year = 2023, md_income = 0, md_expense = 0\<rparr>,
          \<lparr>md_month = ''Nov'', md_year = 2023, md_income = 0, md_expense = 0\<rparr>,
          \<lparr>md_month = ''Dec'', md_year = 2023, md_income = 0, md_expense = 0\<rparr>,
          \<lparr>md_month = ''Jan'', md_year = 2024, md_income = 100, md_expense = 0\<rparr>,
          \<lparr>md_month = ''Feb'', md_year = 2024, md_income = 0, md_expense = 0\<rparr>,
          \<lparr>md_month = ''Mar'', md_year = 2024, md_income = 0, md_expense = 40\<rparr>]"
proof -
  let ?coll = "[example_tx ''a'' 100 (Some ''Salary'') INCOME (midnight 2024 1 31),
      example_tx ''b'' 40 (Some ''Food'') EXPENSE (midnight 2024 3 1),
      example_tx ''c'' 7 (Some ''Food'') EXPENSE (midnight 2023 9 30)]"
  have f: "find_by_date (midnight 2023 10 1) (next_month_start 2023 10) 1000 ?coll = []"
    "find_by_date (midnight 2023 11 1) (next_month_start 2023 11) 1000 ?coll = []"
    "find_by_date (midnight 2023 12 1) (next_month_start 2023 12) 1000 ?coll = []"
    "find_by_date (midnight 2024 1 1) (next_month_start 2024 1) 1000 ?coll
       = [example_tx ''a'' 100 (Some ''Salary'') INCOME (midnight 2024 1 31)]"
    "find_by_date (midnight 2024 2 1) (next_month_start 2024 2) 1000 ?coll = []"
    "find_by_date (midnight 2024 3 1) (next_month_start 2024 3) 1000 ?coll
       = [example_tx ''b'' 40 (Some ''Food'') EXPENSE (midnight 2024 3 1)]"
    by (simp_all add: find_by_date_def example_in_window)
  have t: "total_of INCOME [example_tx ''a'' 100 (Some ''Salary'') INCOME (midnight 2024 1 31)] = 100"
    "total_of EXPENSE [example_tx ''a'' 100 (Some ''Salary'') INCOME (midnight 2024 1 31)] = 0"
    "total_of INCOME [example_tx ''b'' 40 (Some ''Food'') EXPENSE (midnight 2024 3 1)] = 0"
    "total_of EXPENSE [example_tx ''b'' 40 (Some ''Food'') EXPENSE (midnight 2024 3 1)] = 40"
    "total_of INCOME [] = 0" "total_of EXPENSE [] = 0"
    by (simp_all add: total_of_def example_tx_def)
  show ?thesis
    by (subst C5_last_six_months) (simp_all add: f t month_names_def)
qed


text \<open>
  A collection of 1001 income documents of amount 1, all dated 2024-03-10: the record of March
  2024 carries an income of 1000, while the income documents of that month add up to 1001.
\<close>

theorem C5_counterexample:
  "get_last_six_months \<lparr>dt_year = 2024, dt_month = 3, dt_day = 15, dt_ms = 43200000\<rparr>
     (replicate 1001 (example_tx ''t'' 1 (Some ''Salary'') INCOME (midnight 2024 3 10)))
   = Inr [\<lparr>md_month = ''Oct'', md_year = 2023, md_income = 0, md_expense = 0\<rparr>,
          \<lparr>md_month = ''Nov'', md_year = 2023, md_income = 0, md_expense = 0\<rparr>,
          \<lparr>md_month = ''Dec'', md_year = 2023, md_income = 0, md_expense = 0\<rparr>,
          \<lparr>md_month = ''Jan'', md_year = 2024, md_income = 0, md_expense = 0\<rparr>,
          \<lparr>md_month = ''Feb'', md_year = 2024, md_income = 0, md_expense = 0\<rparr>,
          \<lparr>md_month = ''Mar'', md_year = 2024, md_income = 1000, md_expense = 0\<rparr>]
   \<and> total_of INCOME
        (filter (\<lambda>t. dt_year (t_date t) = 2024 \<and> dt_month (t_date t) = 3)
           (replicate 1001 (example_tx ''t'' 1 (Some ''Salary'') INCOME (midnight 2024 3 10))))
       = 1001"
proof -
  let ?t = "example_tx ''t'' 1 (Some ''Salary'') INCOME (midnight 2024 3 10)"
  have f: "find_by_date (midnight 2023 10 1) (next_month_start 2023 10) 1000 (replicate 1001 ?t) = []"
    "find_by_date (midnight 2023 11 1) (next_month_start 2023 11) 1000 (replicate 1001 ?t) = []"
    "find_by_date (midnight 2023 12 1) (next_month_start 2023 12) 1000 (replicate 1001 ?t) = []"
    "find_by_date (midnight 2024 1 1) (next_month_start 2024 1) 1000 (replicate 1001 ?t) = []"
    "find_by_date (midnight 2024 2 1) (next_month_start 2024 2) 1000 (replicate 1001 ?t) = []"
    "find_by_date (midnight 2024 3 1) (next_month_start 2024 3) 1000 (replicate 1001 ?t)
       = replicate 1000 ?t"
    by (simp_all add: find_by_date_def filter_replicate example_in_window)
  have t: "total_of INCOME (replicate 1000 ?t) = 1000" "total_of EXPENSE (replicate 1000 ?t) = 0"
    "total_of INCOME [] = 0" "total_of EXPENSE [] = 0"
    by (simp_all add: total_of_def filter_replicate sum_list_replicate example_tx_def
         )
  have a: "get_last_six_months \<lparr>dt_year = 2024, dt_month = 3, dt_day = 15, dt_ms = 43200000\<rparr>
     (replicate 1001 ?t)
   = Inr [\<lparr>md_month = ''Oct'', md_year = 2023, md_income = 0, md_expense = 0\<rparr>,
          \<lparr>md_month = ''Nov'', md_year = 2023, md_income = 0, md_expense = 0\<rparr>,
          \<lparr>md_month = ''Dec'', md_year = 2023, md_income = 0, md_expense = 0\<rparr>,
          \<lparr>md_month = ''Jan'', md_year = 2024, md_income = 0, md_expense = 0\<rparr>,
          \<lparr>md_month = ''Feb'', md_year = 2024, md_income = 0, md_expense = 0\<rparr>,
          \<lparr>md_month = ''Mar'', md_year = 2024, md_income = 1000, md_expense = 0\<rparr>]"
    by (simp add: get_last_six_months_def six_months_step_ok f t month_names_def
         )
  have b: "total_of INCOME
        (filter (\<lambda>t. dt_year (t_date t) = 2024 \<and> dt_month (t_date t) = 3) (replicate 1001 ?t))
       = 1001"
    by (simp add: total_of_def filter_replicate sum_list_replicate example_tx_def midnight_def
         )
  from a b show ?thesis by (rule conjI)
qed

section \<open>Properties of the partial updates\<close>

lemma update_one_find_None:
  "find p xs = None \<Longrightarrow> update_one p f xs = (xs, 0, 0)"
  by (induction xs) (auto split: if_splits)

lemma update_one_find_Some:
  "find p xs = Some x \<Longrightarrow>
     \<exists>pre post. xs = pre @ x # post \<and> (\<forall>y \<in> set pre. \<not> p y) \<and> p x \<and>
       update_one p f xs = (pre @ f x # post, 1, if f x = x then 0 else 1)"
proof (induction xs)
  case Nil
  then show ?case by simp
next
  case (Cons a xs)
  show ?case
  proof (cases "p a")
    case True
    with Cons.prems have "a = x" by simp
    with True show ?thesis by (intro exI [of _ "[]"] exI [of _ xs]) simp
  next
    case False
    with Cons obtain pre post where
      "xs = pre @ x # post" "\<forall>y \<in> set pre. \<not> p y" "p x"
      "update_one p f xs = (pre @ f x # post, 1, if f x = x then 0 else 1)"
      by auto
    with False show ?thesis
      by (intro exI [of _ "a # pre"] exI [of _ post]) simp
  qed
qed

text \<open>When \<open>update_category\<close> answers 404: no document has the identifier, or the first
  one that has it already holds every supplied value.\<close>

lemma update_category_not_found_iff:
  assumes "\<not> category_update_empty u"
  shows "(fst (update_category cid u coll) = Inl (HTTPException 404 ''Category not found''))
         = (case find (\<lambda>c. c_id c = cid) coll of None \<Rightarrow> True
            | Some c \<Rightarrow> set_category u c = c)"
proof (cases "find (\<lambda>c. c_id c = cid) coll")
  case None
  with assms show ?thesis
    by (simp add: update_category_def update_one_find_None modified_count_def)
next
  case (Some c)
  from update_one_find_Some [OF Some, of "set_category u"] obtain pre post where
    *: "coll = pre @ c # post" "\<forall>y \<in> set pre. c_id y \<noteq> cid" "c_id c = cid"
      "update_one (\<lambda>c. c_id c = cid) (set_category u) coll
        = (pre @ set_category u c # post, 1, if set_category u c = c then 0 else 1)"
    by auto
  have "c_id (set_category u c) = cid" using *(3) by (simp add: set_category_def)
  with *(2) have "find (\<lambda>c. c_id c = cid) (pre @ set_category u c # post) = Some (set_category u c)"
    by (induction pre) auto
  with assms Some * show ?thesis
    by (auto simp: update_category_def modified_count_def Let_def)
qed

text \<open>A patch that changes the first category with the identifier: that document is
  replaced by its \<open>$set\<close> image, which is returned, and every other document stays.\<close>

lemma update_category_changed:
  assumes "\<not> category_update_empty u" "find (\<lambda>c. c_id c = cid) coll = Some c"
    and "set_category u c \<noteq> c"
  shows "\<exists>pre post. coll = pre @ c # post \<and> (\<forall>y \<in> set pre. c_id y \<noteq> cid) \<and>
           update_category cid u coll = (Inr (set_category u c), pre @ set_category u c # post)"
proof -
  from update_one_find_Some [OF assms(2), of "set_category u"] obtain pre post where
    *: "coll = pre @ c # post" "\<forall>y \<in> set pre. c_id y \<noteq> cid" "c_id c = cid"
      "update_one (\<lambda>c. c_id c = cid) (set_category u) coll
        = (pre @ set_category u c # post, 1, if set_category u c = c then 0 else 1)"
    by auto
  have "c_id (set_category u c) = cid" using *(3) by (simp add: set_category_def)
  with *(2) have "find (\<lambda>c. c_id c = cid) (pre @ set_category u c # post) = Some (set_category u c)"
    by (induction pre) auto
  with assms(1,3) * have "update_category cid u coll
      = (Inr (set_category u c), pre @ set_category u c # post)"
    by (simp add: update_category_def modified_count_def Let_def)
  with *(1,2) show ?thesis by blast
qed

lemma set_category_fields:
  "c_id (set_category u c) = c_id c"
  "c_created_at (set_category u c) = c_created_at c"
  "c_name (set_category u c) = (case cu_name u of None \<Rightarrow> c_name c | Some v \<Rightarrow> v)"
  "c_color (set_category u c) = (case cu_color u of None \<Rightarrow> c_color c | Some v \<Rightarrow> v)"
  "c_icon (set_category u c) = (case cu_icon u of None \<Rightarrow> c_icon c | Some v \<Rightarrow> v)"
  by (simp_all add: set_category_def set_field_def)

text \<open>
  C4, at an input where the code departs from it.  A category, a transaction and a reminder
  exist under the identifiers \<open>c1\<close>, \<open>t1\<close> and \<open>r1\<close>, and each is updated with a
  non-empty patch that supplies the value the record already holds.  One record matches the
  identifier (the matched count of the store is 1), and the call answers 404 "not found".
\<close>

theorem C4_not_found_on_unchanged:
  "update_category ''c1'' \<lparr>cu_name = Some ''Food'', cu_color = None, cu_icon = None\<rparr>
     [example_category ''c1'' ''Food'']
   = (Inl (HTTPException 404 ''Category not found''), [example_category ''c1'' ''Food''])
   \<and> matched_count (update_one (\<lambda>c. c_id c = ''c1'')
        (set_category \<lparr>cu_name = Some ''Food'', cu_color = None, cu_icon = None\<rparr>)
        [example_category ''c1'' ''Food'']) = 1
   \<and> update_transaction ''t1''
       \<lparr>tu_amount = Some 50, tu_category_id = None, tu_category_name = None, tu_type = None,
        tu_date = None, tu_note = None, tu_is_recurring = None\<rparr>
       [example_tx ''t1'' 50 (Some ''Food'') EXPENSE (midnight 2024 6 15)]
     = (Inl (HTTPException 404 ''Transaction not found''),
        [example_tx ''t1'' 50 (Some ''Food'') EXPENSE (midnight 2024 6 15)])
   \<and> update_reminder ''r1''
       \<lparr>ru_title = None, ru_message = None, ru_date = None, ru_time = None,
        ru_is_recurring = None, ru_is_enabled = Some True\<rparr>
       [example_reminder ''r1'' ''Rent due'']
     = (Inl (HTTPException 404 ''Reminder not found''), [example_reminder ''r1'' ''Rent due''])"
  by (simp add: update_category_def update_transaction_def update_reminder_def
        category_update_empty_def transaction_update_empty_def reminder_update_empty_def
        set_category_def set_transaction_def set_reminder_def set_field_def
        modified_count_def matched_count_def example_category_def example_tx_def
        example_reminder_def Let_def)

text \<open>
  C7.  For every identifier and every collection, an update whose patch has no field set
  answers 400 "No data to update" and leaves the collection as it was; this holds for
  categories, transactions and reminders.
\<close>

theorem C7_empty_patch:
  "update_category category_id \<lparr>cu_name = None, cu_color = None, cu_icon = None\<rparr> cats
     = (Inl (HTTPException 400 ''No data to update''), cats)
   \<and> update_transaction transaction_id
       \<lparr>tu_amount = None, tu_category_id = None, tu_category_name = None, tu_type = None,
        tu_date = None, tu_note = None, tu_is_recurring = None\<rparr> txs
     = (Inl (HTTPException 400 ''No data to update''), txs)
   \<and> update_reminder reminder_id
       \<lparr>ru_title = None, ru_message = None, ru_date = None, ru_time = None,
        ru_is_recurring = None, ru_is_enabled = None\<rparr> rems
     = (Inl (HTTPException 400 ''No data to update''), rems)"
  by (simp add: update_category_def update_transaction_def update_reminder_def
        category_update_empty_def transaction_update_empty_def reminder_update_empty_def)

section \<open>Properties of the category catalog\<close>

text \<open>
  C8.  On an empty catalog, \<open>get_categories\<close> stores the eight default categories (Food,
  Rent, Transport, Shopping, Bills, Entertainment, Salary, Investments, with their colors and
  icons, each under a generated identifier and creation time) and returns them; a second call
  on the resulting catalog returns the same eight and stores nothing.
\<close>

theorem C8_seeding:
  "fst (get_categories gen []) = snd (get_categories gen [])
   \<and> map (\<lambda>c. (c_name c, c_color c, c_icon c)) (fst (get_categories gen []))
     = [(''Food'', ''#EF4444'', [CHR 0xF0, CHR 0x9F, CHR 0x8D, CHR 0x94]),
        (''Rent'', ''#8B5CF6'', [CHR 0xF0, CHR 0x9F, CHR 0x8F, CHR 0xA0]),
        (''Transport'', ''#3B82F6'', [CHR 0xF0, CHR 0x9F, CHR 0x9A, CHR 0x97]),
        (''Shopping'', ''#EC4899'',
           [CHR 0xF0, CHR 0x9F, CHR 0x9B, CHR 0x8D, CHR 0xEF, CHR 0xB8, CHR 0x8F]),
        (''Bills'', ''#F59E0B'', [CHR 0xF0, CHR 0x9F, CHR 0x93, CHR 0x84]),
        (''Entertainment'', ''#10B981'', [CHR 0xF0, CHR 0x9F, CHR 0x8E, CHR 0xAC]),
        (''Salary'', ''#22C55E'', [CHR 0xF0, CHR 0x9F, CHR 0x92, CHR 0xB5]),
        (''Investments'', ''#6366F1'', [CHR 0xF0, CHR 0x9F, CHR 0x93, CHR 0x88])]
   \<and> map (\<lambda>c. (c_id c, c_created_at c)) (fst (get_categories gen []))
     = map gen [0, 1, 2, 3, 4, 5, 6, 7]
   \<and> get_categories gen' (snd (get_categories gen []))
     = (fst (get_categories gen []), snd (get_categories gen []))"
  by (simp add: get_categories_def Let_def DEFAULT_CATEGORIES_def new_Category_def
        eval_nat_numeral)

text \<open>
  C9 (as the code has it).  On a non-empty catalog, \<open>get_categories\<close> returns the first
  100 stored categories (all of them when there are at most 100) and leaves the catalog as it
  was.
\<close>

theorem C9_list_cap:
  "coll \<noteq> [] \<Longrightarrow> get_categories gen coll = (take 100 coll, coll)"
  by (simp add: get_categories_def Let_def)

text \<open>A catalog of two categories is returned whole.\<close>

theorem C9_witness:
  "[example_category ''c1'' ''Food'', example_category ''c2'' ''Rent''] \<noteq> []
   \<and> get_categories example_gen [example_category ''c1'' ''Food'', example_category ''c2'' ''Rent'']
     = ([example_category ''c1'' ''Food'', example_category ''c2'' ''Rent''],
        [example_category ''c1'' ''Food'', example_category ''c2'' ''Rent''])"
  using C9_list_cap [of "[example_category ''c1'' ''Food'', example_category ''c2'' ''Rent'']" example_gen]
  by simp

text \<open>A catalog of 101 categories: 100 are returned.\<close>

theorem C9_counterexample:
  "replicate 101 (example_category ''c1'' ''Food'') \<noteq> []
   \<and> length (replicate 101 (example_category ''c1'' ''Food'')) = 101
   \<and> get_categories example_gen (replicate 101 (example_category ''c1'' ''Food''))
     = (replicate 100 (example_category ''c1'' ''Food''),
        replicate 101 (example_category ''c1'' ''Food''))"
  by (simp add: get_categories_def Let_def)

section \<open>Properties of the CSV export\<close>


lemma for_each_Inr:
  "\<forall>x \<in> set xs. f x = Inr (g x) \<Longrightarrow> for_each f xs = Inr (map g xs)"
  by (induction xs) auto

text \<open>The export has one row per fetched transaction, in order, after the header; a
  stored \<open>None\<close> note makes the whole export fail.\<close>

lemma csv_rows_each:
  assumes "\<forall>t \<in> set transactions. csv_row strftime fmt_amount t = Inr (row t)"
  shows "csv_rows strftime fmt_amount transactions
           = Inr (''Date,Type,Category,Amount,Notes'' # map row transactions)"
  using for_each_Inr [OF assms] by (simp add: csv_rows_def)

lemma csv_row_null_note:
  "t_note t = Null \<Longrightarrow> csv_row strftime fmt_amount t = Inl AttributeError"
  by (simp add: csv_row_def get_note_def)




end
